theory Spec2Isabelle
  imports Main
begin

section \<open>The annotate command of arc-git\<close>

text \<open>
  A shallow embedding of \<^verbatim>\<open>internal/cmd/annotate.go\<close> and
  \<^verbatim>\<open>internal/prompt\<close>. Go strings are byte strings (\<open>string\<close>, one
  \<open>char\<close> per byte). A Go \<open>error\<close> value is the datatype \<open>error\<close>; a function
  returning \<open>(T, error)\<close> returns \<open>error + T\<close>, one returning \<open>error\<close> returns
  \<open>error option\<close> (\<open>None\<close> is \<open>nil\<close>). A run-time panic (an index or a slice bound
  out of range) is a value of the datatype \<open>fault\<close>; a function that can panic returns
  \<open>fault + T\<close>, and the state a crashed run leaves behind is not tracked.
\<close>

subsection \<open>Errors and panics\<close>

datatype error =
    Errorf string             \<comment> \<open>\<open>fmt.Errorf\<close>: the formatted message\<close>
  | CLIError string string    \<comment> \<open>\<open>errors.NewCLIError(msg).WithHint(hint)\<close>\<close>

datatype fault =
    IndexOutOfRange nat nat   \<comment> \<open>index, length\<close>
  | SliceOutOfRange nat nat   \<comment> \<open>upper bound, length\<close>

definition index :: "'a list \<Rightarrow> nat \<Rightarrow> fault + 'a" where
  "index xs i = (if i < length xs then Inr (xs ! i) else Inl (IndexOutOfRange i (length xs)))"

definition slice_to :: "string \<Rightarrow> nat \<Rightarrow> fault + string" where
  "slice_to s n = (if n \<le> length s then Inr (take n s) else Inl (SliceOutOfRange n (length s)))"

subsection \<open>Strings: \<open>strings.TrimSpace\<close>, \<open>strings.Split\<close>, \<open>%d\<close>\<close>

abbreviation nl :: char where
  "nl \<equiv> CHR 0x0A"

text \<open>
  The code points for which Go's \<open>unicode.IsSpace\<close> holds, in UTF-8:
  tab, line feed, vertical tab, form feed, carriage return, space, U+0085, U+00A0,
  U+1680, U+2000 to U+200A, U+2028, U+2029, U+202F, U+205F and U+3000.
\<close>

definition space_runes :: "string list" where
  "space_runes =
     [[CHR 0x09], [CHR 0x0A], [CHR 0x0B], [CHR 0x0C], [CHR 0x0D], [CHR 0x20],
      [CHR 0xC2, CHR 0x85], [CHR 0xC2, CHR 0xA0],
      [CHR 0xE1, CHR 0x9A, CHR 0x80],
      [CHR 0xE2, CHR 0x80, CHR 0x80], [CHR 0xE2, CHR 0x80, CHR 0x81],
      [CHR 0xE2, CHR 0x80, CHR 0x82], [CHR 0xE2, CHR 0x80, CHR 0x83],
      [CHR 0xE2, CHR 0x80, CHR 0x84], [CHR 0xE2, CHR 0x80, CHR 0x85],
      [CHR 0xE2, CHR 0x80, CHR 0x86], [CHR 0xE2, CHR 0x80, CHR 0x87],
      [CHR 0xE2, CHR 0x80, CHR 0x88], [CHR 0xE2, CHR 0x80, CHR 0x89],
      [CHR 0xE2, CHR 0x80, CHR 0x8A],
      [CHR 0xE2, CHR 0x80, CHR 0xA8], [CHR 0xE2, CHR 0x80, CHR 0xA9],
      [CHR 0xE2, CHR 0x80, CHR 0xAF],
      [CHR 0xE2, CHR 0x81, CHR 0x9F],
      [CHR 0xE3, CHR 0x80, CHR 0x80]]"

text \<open>The number of bytes of the rune of \<open>rs\<close> that \<open>s\<close> starts with; 0 when there is none.\<close>

definition rune_width :: "string list \<Rightarrow> string \<Rightarrow> nat" where
  "rune_width rs s =
     (case find (\<lambda>r. r \<noteq> [] \<and> take (length r) s = r) rs of None \<Rightarrow> 0 | Some r \<Rightarrow> length r)"

function trim_runes :: "string list \<Rightarrow> string \<Rightarrow> string" where
  "trim_runes rs s =
     (if rune_width rs s = 0 then s else trim_runes rs (drop (rune_width rs s) s))"
  by pat_completeness auto

definition TrimLeftSpace :: "string \<Rightarrow> string" where
  "TrimLeftSpace s = trim_runes space_runes s"

definition TrimRightSpace :: "string \<Rightarrow> string" where
  "TrimRightSpace s = rev (trim_runes (map rev space_runes) (rev s))"

text \<open>\<open>strings.TrimSpace\<close>: leading white space goes first, then trailing white space.\<close>

definition TrimSpace :: "string \<Rightarrow> string" where
  "TrimSpace s = TrimRightSpace (TrimLeftSpace s)"

text \<open>\<open>strings.Split(s, sep)\<close> for a separator of one byte; \<open>Split "" sep\<close> is \<open>[""]\<close>.\<close>

fun Split :: "string \<Rightarrow> char \<Rightarrow> string list" where
  "Split [] sep = [[]]"
| "Split (c # cs) sep =
     (if c = sep then [] # Split cs sep
      else (case Split cs sep of l # ls \<Rightarrow> (c # l) # ls | [] \<Rightarrow> [[c]]))"

text \<open>The verb \<open>%d\<close> of \<open>fmt\<close> on an \<open>int\<close>.\<close>

definition digit :: "nat \<Rightarrow> char" where
  "digit d = char_of (48 + d)"

function decimal :: "nat \<Rightarrow> string" where
  "decimal n = (if n < 10 then [digit n] else decimal (n div 10) @ [digit (n mod 10)])"
  by pat_completeness auto

definition itoa :: "int \<Rightarrow> string" where
  "itoa i = (if i < 0 then CHR ''-'' # decimal (nat (- i)) else decimal (nat i))"

subsection \<open>Commits and the commit selector\<close>

record Commit =
  Hash :: string
  Message :: string
  Author :: string
  Date :: string

text \<open>
  The loop of \<open>getCommits\<close> over the lines of the log: \<open>i\<close> is the loop variable and
  \<open>commits\<close> the slice built so far. Every \<open>lines[..]\<close> of the source is a checked
  index.
\<close>

function parse_lines :: "string list \<Rightarrow> nat \<Rightarrow> Commit list \<Rightarrow> fault + Commit list" where
  "parse_lines lines i commits =
     (if i + 3 \<le> length lines then
        (case index lines i of
           Inl p \<Rightarrow> Inl p
         | Inr l \<Rightarrow>
             if l = [] then Inr commits
             else
               (case index lines i of Inl p \<Rightarrow> Inl p | Inr h \<Rightarrow>
               (case index lines (i + 1) of Inl p \<Rightarrow> Inl p | Inr a \<Rightarrow>
               (case index lines (i + 2) of Inl p \<Rightarrow> Inl p | Inr d \<Rightarrow>
               (case index lines (i + 3) of Inl p \<Rightarrow> Inl p | Inr m \<Rightarrow>
                  parse_lines lines (i + 4)
                    (commits @ [\<lparr>Hash = h, Message = m, Author = a, Date = d\<rparr>]))))))
      else Inr commits)"
  by pat_completeness auto

text \<open>The parsing half of \<open>getCommits\<close>: from the output of \<open>git log\<close> to the commits.\<close>

definition parse_log :: "string \<Rightarrow> fault + Commit list" where
  "parse_log out = parse_lines (Split (TrimSpace out) nl) 0 []"

subsection \<open>The prompt template\<close>

definition AnnotateCommitModel :: string where
  "AnnotateCommitModel = ''claude-sonnet-4-5-20250929''"

definition quoted :: "string \<Rightarrow> string" where
  "quoted s = [CHR 0x22] @ s @ [CHR 0x22]"

definition system_prompt :: string where
  "system_prompt =
     ''You are an expert code archaeologist and technical documentation specialist. '' @
     ''Your task is to analyze git commits and generate clear, informative annotations '' @
     ''that explain the technical significance of the changes.'' @ [nl, nl] @
     ''Your annotations should:'' @ [nl] @
     ''1. Explain the technical purpose and impact of the changes'' @ [nl] @
     ''2. Identify what problem was solved or what feature was added'' @ [nl] @
     ''3. Note any architectural or design implications'' @ [nl] @
     ''4. Highlight important implementation details'' @ [nl] @
     ''5. Keep it concise but informative (2-5 sentences)'' @ [nl] @
     ''6. Use present tense and clear, professional language'' @ [nl] @
     ''7. Focus on the '' @ quoted ''why'' @ '' and '' @ quoted ''impact'' @
     '', not just the '' @ quoted ''what'' @ [nl, nl] @
     ''Format your annotation as a single paragraph without bullet points or markdown.''"

definition user_prompt :: "string \<Rightarrow> string \<Rightarrow> string \<Rightarrow> string \<Rightarrow> string \<Rightarrow> string" where
  "user_prompt hash message author date diff =
     ''Analyze this git commit and provide a technical annotation:'' @ [nl, nl] @
     ''Commit: '' @ hash @ [nl] @
     ''Author: '' @ author @ [nl] @
     ''Date: '' @ date @ [nl] @
     ''Message: '' @ message @ [nl, nl] @
     ''Changes:'' @ [nl] @
     diff @ [nl, nl] @
     ''Provide a technical annotation that explains the significance of these changes:''"

definition AnnotateCommit ::
  "string \<Rightarrow> string \<Rightarrow> string \<Rightarrow> string \<Rightarrow> string \<Rightarrow> string \<times> string" where
  "AnnotateCommit hash message author date diff =
     (system_prompt, user_prompt hash message author date diff)"

subsection \<open>The collaborators: git, the temporary file, the AI service, standard output\<close>

record Config =
  Provider :: string
  APIKey :: string
  DefaultModel :: string

record RunOptions =
  System :: string
  Prompt :: string
  Model :: string

record AnnotationResult =
  hash :: string
  status :: string
  message :: string         \<comment> \<open>\<open>omitempty\<close>: absent when empty\<close>
  annotation :: string      \<comment> \<open>\<open>omitempty\<close>: absent when empty\<close>

text \<open>The map that \<open>runAnnotate\<close> hands to the JSON encoder, by its keys.\<close>

record Summary =
  s_total :: int
  s_annotated :: int
  s_skipped :: int
  s_failed :: int
  s_dry_run :: bool
  s_results :: "AnnotationResult list"

text \<open>
  Modelled from the spec: the package \<open>output\<close> of arc-sdk is not part of this
  repository. The CLI surface is \<open>--output text|json|yaml|quiet\<close>, text being the
  table format that \<open>AddOutputFlags\<close> takes as the default, and \<open>out.Is(f)\<close> tells
  whether \<open>f\<close> is the format asked for.
\<close>

datatype OutputFormat = OutputTable | OutputJSON | OutputYAML | OutputQuiet

definition Is :: "OutputFormat \<Rightarrow> OutputFormat \<Rightarrow> bool" where
  "Is out f \<longleftrightarrow> out = f"

text \<open>
  What the process does to the outside, in order: the commands it runs and the calls it
  makes (\<open>call\<close>), and what it writes to standard output (\<open>out_event\<close>). A
  \<open>Printf\<close> is kept as its format and arguments, an encoded summary as the value
  encoded.
\<close>

datatype call =
    GitLog "string list"              \<comment> \<open>\<open>git\<close> with these arguments\<close>
  | GitNotesShow string string        \<comment> \<open>\<open>git notes --ref\<close> ref \<open>show\<close> hash\<close>
  | GitShow string                    \<comment> \<open>\<open>git show --format=\<close> hash\<close>
  | CreateTemp                        \<comment> \<open>\<open>os.CreateTemp\<close>\<close>
  | WriteString string string         \<comment> \<open>file name, text\<close>
  | Remove string                     \<comment> \<open>\<open>os.Remove\<close>, deferred\<close>
  | GitNotesAdd string string string  \<comment> \<open>\<open>git notes --ref\<close> ref \<open>add -F\<close> file hash\<close>
  | ValidateConfig Config
  | NewClient Config
  | ServiceRun RunOptions

datatype arg = I int | S string | E error

datatype out_event =
    Printf string "arg list"
  | Println string
  | Encode Summary

text \<open>
  The answers of the collaborators. Each is a function of the request: within one run
  the same request gets the same answer. An \<open>Inl\<close> or a \<open>Some\<close> is the message of
  the error returned.
\<close>

record env =
  git_log :: "string list \<Rightarrow> string + string"
  git_show :: "string \<Rightarrow> string + string"
  create_temp :: "string + string"                         \<comment> \<open>the name of the file\<close>
  write_string :: "string \<Rightarrow> string \<Rightarrow> string option"
  git_notes_add :: "string \<Rightarrow> string \<Rightarrow> string \<Rightarrow> (string \<times> string) option"
    \<comment> \<open>ref, text of the file, hash; on failure the error and the combined output\<close>
  validate_config :: "Config \<Rightarrow> string option"
  new_client :: "Config \<Rightarrow> string option"
  service_run :: "Config \<Rightarrow> RunOptions \<Rightarrow> string + string"
  encode :: "Summary \<Rightarrow> string option"                    \<comment> \<open>\<open>encoder.Encode\<close> to standard output\<close>

text \<open>
  The state outside the process: the notes of the repository by ref and commit hash, the
  standard output so far and the calls so far.
\<close>

record world =
  git_notes :: "string \<times> string \<Rightarrow> string option"
  stdout :: "out_event list"
  calls :: "call list"

definition Error :: "error \<Rightarrow> string" where
  "Error err = (case err of Errorf m \<Rightarrow> m | CLIError m h \<Rightarrow> m)"

definition called :: "call \<Rightarrow> world \<Rightarrow> world" where
  "called c w = w\<lparr>calls := calls w @ [c]\<rparr>"

definition printed :: "out_event \<Rightarrow> world \<Rightarrow> world" where
  "printed ev w = w\<lparr>stdout := stdout w @ [ev]\<rparr>"

text \<open>The closure \<open>logProgress\<close> of \<open>runAnnotate\<close>.\<close>

definition logProgress :: "OutputFormat \<Rightarrow> string \<Rightarrow> arg list \<Rightarrow> world \<Rightarrow> world" where
  "logProgress out format args w =
     (if \<not> Is out OutputQuiet \<and> \<not> Is out OutputJSON \<and> \<not> Is out OutputYAML
      then printed (Printf format args) w else w)"

text \<open>
  \<open>getCommits\<close>: the arguments of \<open>git log\<close> (\<open>log_args\<close>), the command, and the
  parsing of its output.
\<close>

definition log_args :: "int \<Rightarrow> string \<Rightarrow> string \<Rightarrow> string list" where
  "log_args since from to =
     (let args = [''log'', ''--format=%H%n%an <%ae>%n%ad%n%s'', ''--no-merges'']
      in if from \<noteq> [] then args @ [from @ ''..'' @ to]
         else args @ [''-n'' @ itoa since])"

definition getCommits ::
  "env \<Rightarrow> int \<Rightarrow> string \<Rightarrow> string \<Rightarrow> world \<Rightarrow> fault + (error + Commit list) \<times> world" where
  "getCommits e since from to w =
     (let args = log_args since from to;
          w = called (GitLog args) w
      in case git_log e args of
           Inl err \<Rightarrow> Inr (Inl (Errorf (''git log failed: '' @ err)), w)
         | Inr out \<Rightarrow>
             (case parse_log out of
                Inl p \<Rightarrow> Inl p
              | Inr commits \<Rightarrow> Inr (Inr commits, w)))"

definition getCommitDiff :: "env \<Rightarrow> string \<Rightarrow> world \<Rightarrow> (error + string) \<times> world" where
  "getCommitDiff e h w =
     (case git_show e h of
        Inl err \<Rightarrow> (Inl (Errorf (''git show failed: '' @ err)), called (GitShow h) w)
      | Inr out \<Rightarrow> (Inr out, called (GitShow h) w))"

text \<open>
  \<open>hasNote\<close>: \<open>git notes show\<close> exits with 0 when the commit has a note under the
  ref.
\<close>

definition hasNote :: "string \<Rightarrow> string \<Rightarrow> world \<Rightarrow> bool \<times> world" where
  "hasNote h ref w = (git_notes w (ref, h) \<noteq> None, called (GitNotesShow ref h) w)"

text \<open>
  \<open>addNote\<close>: the note goes through a temporary file, removed on return; when
  \<open>git notes add\<close> succeeds the commit has the note.
\<close>

definition addNote ::
  "env \<Rightarrow> string \<Rightarrow> string \<Rightarrow> string \<Rightarrow> world \<Rightarrow> error option \<times> world" where
  "addNote e h ref note w =
     (case create_temp e of
        Inl err \<Rightarrow>
          (Some (Errorf (''failed to create temp file: '' @ err)), called CreateTemp w)
      | Inr name \<Rightarrow>
          (let w = called CreateTemp w in
           case write_string e name note of
             Some err \<Rightarrow>
               (Some (Errorf (''failed to write note: '' @ err)),
                called (Remove name) (called (WriteString name note) w))
           | None \<Rightarrow>
               (let w = called (GitNotesAdd ref name h) (called (WriteString name note) w) in
                case git_notes_add e ref note h of
                  Some (err, out) \<Rightarrow>
                    (Some (Errorf (''git notes failed: '' @ err @ [nl] @ ''Output: '' @ out)),
                     called (Remove name) w)
                | None \<Rightarrow>
                    (None, called (Remove name) (w\<lparr>git_notes := (git_notes w)((ref, h) \<mapsto> note)\<rparr>)))))"

definition bindF :: "fault + 'a \<Rightarrow> ('a \<Rightarrow> fault + 'b) \<Rightarrow> fault + 'b" where
  "bindF m f = (case m of Inl p \<Rightarrow> Inl p | Inr x \<Rightarrow> f x)"

definition generateAnnotation ::
  "env \<Rightarrow> Config \<Rightarrow> Commit \<Rightarrow> string \<Rightarrow> world \<Rightarrow> fault + (error + string) \<times> world" where
  "generateAnnotation e cfg commit diff w =
     bindF (slice_to (Hash commit) 7) (\<lambda>h.
       case AnnotateCommit h (Message commit) (Author commit) (Date commit) diff of
         (systemPrompt, userPrompt) \<Rightarrow>
           (let opts = \<lparr>System = systemPrompt, Prompt = userPrompt, Model = AnnotateCommitModel\<rparr>;
                w = called (ServiceRun opts) w
            in case service_run e cfg opts of
                 Inl err \<Rightarrow> Inr (Inl (Errorf (''AI request failed: '' @ err)), w)
               | Inr text \<Rightarrow> Inr (Inr (TrimSpace text), w)))"

subsection \<open>\<open>runAnnotate\<close>\<close>

text \<open>The counters and the results of \<open>runAnnotate\<close>.\<close>

record locals =
  annotated :: int
  skipped :: int
  failed :: int
  results :: "AnnotationResult list"

text \<open>
  The body of the loop over the commits, for the commit at index \<open>i\<close> of \<open>n\<close>. Every
  \<open>commit.Hash[:7]\<close> of the source is a checked slice, taken where the source takes
  it (the arguments of \<open>logProgress\<close> are evaluated in every output mode). The
  preview-or-save statement ends with the flag of its \<open>continue\<close>: without it control
  reaches the final \<open>annotated++\<close>.
\<close>

definition process_commit ::
  "env \<Rightarrow> Config \<Rightarrow> bool \<Rightarrow> bool \<Rightarrow> OutputFormat \<Rightarrow> nat \<Rightarrow> nat \<Rightarrow> Commit \<Rightarrow> locals \<Rightarrow> world
     \<Rightarrow> fault + locals \<times> world" where
  "process_commit e cfg dryRun force out i n commit l w =
     bindF (slice_to (Hash commit) 7) (\<lambda>h.
     let w = logProgress out (nl # ''[%d/%d] Processing %s'' @ [nl])
               [I (int i + 1), I (int n), S h] w
     in
     case (if \<not> force then hasNote (Hash commit) ''ai'' w else (False, w)) of (noted, w) \<Rightarrow>
     if noted then
       (let w = logProgress out (''  Already annotated (use --force to re-annotate)'' @ [nl]) [] w;
            l = l\<lparr>skipped := skipped l + 1\<rparr>
        in bindF (slice_to (Hash commit) 7) (\<lambda>h.
             Inr (l\<lparr>results := results l @
                    [\<lparr>hash = h, status = ''skipped'', message = ''already annotated'',
                      annotation = []\<rparr>]\<rparr>, w)))
     else
       (case getCommitDiff e (Hash commit) w of
          (Inl err, w) \<Rightarrow>
            (let w = logProgress out (''  Failed to get diff: %v'' @ [nl]) [E err] w;
                 l = l\<lparr>failed := failed l + 1\<rparr>
             in bindF (slice_to (Hash commit) 7) (\<lambda>h.
                  Inr (l\<lparr>results := results l @
                         [\<lparr>hash = h, status = ''failed'',
                           message = ''failed to get diff: '' @ Error err,
                           annotation = []\<rparr>]\<rparr>, w)))
        | (Inr diff, w) \<Rightarrow>
            if length diff = 0 then
              (let w = logProgress out (''  No diff (merge commit?), skipping'' @ [nl]) [] w;
                   l = l\<lparr>skipped := skipped l + 1\<rparr>
               in bindF (slice_to (Hash commit) 7) (\<lambda>h.
                    Inr (l\<lparr>results := results l @
                           [\<lparr>hash = h, status = ''skipped'',
                             message = ''no diff (merge commit?)'', annotation = []\<rparr>]\<rparr>, w)))
            else
              (let w = logProgress out (''  Generating AI annotation...'' @ [nl]) [] w in
               bindF (generateAnnotation e cfg commit diff w) (\<lambda>generated.
               case generated of
                 (Inl err, w) \<Rightarrow>
                   (let w = logProgress out (''  Failed to generate annotation: %v'' @ [nl]) [E err] w;
                        l = l\<lparr>failed := failed l + 1\<rparr>
                    in bindF (slice_to (Hash commit) 7) (\<lambda>h.
                         Inr (l\<lparr>results := results l @
                                [\<lparr>hash = h, status = ''failed'',
                                  message = ''failed to generate annotation: '' @ Error err,
                                  annotation = []\<rparr>]\<rparr>, w)))
               | (Inr text, w) \<Rightarrow>
                   bindF
                     (if dryRun then
                        bindF (slice_to (Hash commit) 7) (\<lambda>h.
                        let w = logProgress out
                                  (nl # ''--- Annotation for %s ---'' @ [nl] @ ''%s'' @ [nl])
                                  [S h, S text] w
                        in bindF (slice_to (Hash commit) 7) (\<lambda>h.
                             Inr (False,
                                  l\<lparr>results := results l @
                                     [\<lparr>hash = h, status = ''preview'', message = [],
                                       annotation = text\<rparr>]\<rparr>, w)))
                      else
                        (case addNote e (Hash commit) ''ai'' text w of
                           (Some err, w) \<Rightarrow>
                             (let w = logProgress out (''  Failed to add note: %v'' @ [nl]) [E err] w;
                                  l = l\<lparr>failed := failed l + 1\<rparr>
                              in bindF (slice_to (Hash commit) 7) (\<lambda>h.
                                   Inr (True,
                                        l\<lparr>results := results l @
                                           [\<lparr>hash = h, status = ''failed'',
                                             message = ''failed to add note: '' @ Error err,
                                             annotation = []\<rparr>]\<rparr>, w)))
                         | (None, w) \<Rightarrow>
                             (let w = logProgress out (''  Annotated successfully'' @ [nl]) [] w in
                              bindF (slice_to (Hash commit) 7) (\<lambda>h.
                                Inr (False,
                                     l\<lparr>results := results l @
                                        [\<lparr>hash = h, status = ''success'', message = [],
                                          annotation = text\<rparr>]\<rparr>, w)))))
                     (\<lambda>(continue, l, w).
                        if continue then Inr (l, w)
                        else Inr (l\<lparr>annotated := annotated l + 1\<rparr>, w))))))"

text \<open>The loop \<open>for i, commit := range commits\<close>, from index \<open>i\<close> on.\<close>

fun process_commits ::
  "env \<Rightarrow> Config \<Rightarrow> bool \<Rightarrow> bool \<Rightarrow> OutputFormat \<Rightarrow> nat \<Rightarrow> nat \<Rightarrow> Commit list \<Rightarrow> locals \<Rightarrow> world
     \<Rightarrow> fault + locals \<times> world" where
  "process_commits e cfg dryRun force out i n [] l w = Inr (l, w)"
| "process_commits e cfg dryRun force out i n (commit # rest) l w =
     (case process_commit e cfg dryRun force out i n commit l w of
        Inl p \<Rightarrow> Inl p
      | Inr (l', w') \<Rightarrow> process_commits e cfg dryRun force out (i + 1) n rest l' w')"

text \<open>The \<open>switch\<close> that ends \<open>runAnnotate\<close>: the summary, by output mode.\<close>

definition report ::
  "env \<Rightarrow> bool \<Rightarrow> OutputFormat \<Rightarrow> nat \<Rightarrow> locals \<Rightarrow> world \<Rightarrow> error option \<times> world" where
  "report e dryRun out n l w =
     (if Is out OutputJSON then
        (let result = \<lparr>s_total = int n, s_annotated = annotated l, s_skipped = skipped l,
                        s_failed = failed l, s_dry_run = dryRun, s_results = results l\<rparr>
         in case encode e result of
              Some err \<Rightarrow>
                (Some (CLIError (''failed to encode JSON: '' @ err) ''Try --output table instead''), w)
            | None \<Rightarrow> (None, printed (Encode result) w))
      else if Is out OutputQuiet then (None, w)
      else
        (let w = printed (Printf (nl # ''=== Annotation Complete ==='' @ [nl]) []) w;
             w = printed (Printf (''Annotated: %d'' @ [nl]) [I (annotated l)]) w;
             w = printed (Printf (''Skipped: %d'' @ [nl]) [I (skipped l)]) w;
             w = printed (Printf (''Failed: %d'' @ [nl]) [I (failed l)]) w
         in if dryRun then
              (None, printed (Println ''Run without --dry-run to save annotations'')
                       (printed (Println (nl # ''(Dry run - no notes were added)'')) w))
            else
              (None, printed (Println (nl # ''View annotations with: git log --show-notes=ai'')) w)))"

definition runAnnotate ::
  "env \<Rightarrow> Config \<Rightarrow> int \<Rightarrow> string \<Rightarrow> string \<Rightarrow> bool \<Rightarrow> bool \<Rightarrow> OutputFormat \<Rightarrow> world
     \<Rightarrow> fault + error option \<times> world" where
  "runAnnotate e cfg since from to dryRun force out w =
     (let w = logProgress out (''Starting git history annotation...'' @ [nl]) [] w in
      bindF (getCommits e since from to w) (\<lambda>got.
      case got of
        (Inl err, w) \<Rightarrow> Inr (Some (Errorf (''failed to get commits: '' @ Error err)), w)
      | (Inr commits, w) \<Rightarrow>
          if length commits = 0 then
            Inr (None, logProgress out (''No commits to annotate.'' @ [nl]) [] w)
          else
            (let w = logProgress out (''Found %d commits to annotate'' @ [nl])
                       [I (int (length commits))] w;
                 w = called (ValidateConfig cfg) w
             in case validate_config e cfg of
                  Some err \<Rightarrow> Inr (Some (Errorf (''invalid AI configuration: '' @ err)), w)
                | None \<Rightarrow>
                    (let w = called (NewClient cfg) w in
                     case new_client e cfg of
                       Some err \<Rightarrow>
                         Inr (Some (Errorf (''failed to create AI client: '' @ err)), w)
                     | None \<Rightarrow>
                         bindF (process_commits e cfg dryRun force out 0 (length commits) commits
                                  \<lparr>annotated = 0, skipped = 0, failed = 0, results = []\<rparr> w)
                           (\<lambda>(l, w). Inr (report e dryRun out (length commits) l w))))))"

subsection \<open>Vocabulary of the statements\<close>

text \<open>
  The request that \<open>generateAnnotation\<close> sends for a commit and a diff, the result
  record of a commit, and the world at two points of the loop body: after the progress
  line and the note check (\<open>gated\<close>), and after the request to the AI service
  (\<open>generating\<close>). \<open>progress out\<close> tells whether \<open>logProgress\<close> prints.
\<close>

definition request :: "Commit \<Rightarrow> string \<Rightarrow> RunOptions" where
  "request commit diff =
     \<lparr>System = system_prompt,
      Prompt = user_prompt (take 7 (Hash commit)) (Message commit) (Author commit)
                 (Date commit) diff,
      Model = AnnotateCommitModel\<rparr>"

definition outcome :: "Commit \<Rightarrow> string \<Rightarrow> string \<Rightarrow> string \<Rightarrow> AnnotationResult" where
  "outcome commit st msg text =
     \<lparr>hash = take 7 (Hash commit), status = st, message = msg, annotation = text\<rparr>"

definition progress :: "OutputFormat \<Rightarrow> bool" where
  "progress out \<longleftrightarrow> out = OutputTable"

definition gated :: "bool \<Rightarrow> OutputFormat \<Rightarrow> nat \<Rightarrow> nat \<Rightarrow> Commit \<Rightarrow> world \<Rightarrow> world" where
  "gated force out i n commit w =
     (let w = logProgress out (nl # ''[%d/%d] Processing %s'' @ [nl])
                [I (int i + 1), I (int n), S (take 7 (Hash commit))] w
      in if force then w else called (GitNotesShow ''ai'' (Hash commit)) w)"

definition generating ::
  "bool \<Rightarrow> OutputFormat \<Rightarrow> nat \<Rightarrow> nat \<Rightarrow> Commit \<Rightarrow> string \<Rightarrow> world \<Rightarrow> world" where
  "generating force out i n commit diff w =
     called (ServiceRun (request commit diff))
       (logProgress out (''  Generating AI annotation...'' @ [nl]) []
         (called (GitShow (Hash commit)) (gated force out i n commit w)))"

text \<open>The locals of \<open>runAnnotate\<close> when the loop starts.\<close>

definition start :: locals where
  "start = \<lparr>annotated = 0, skipped = 0, failed = 0, results = []\<rparr>"

subsection \<open>Sample inputs\<close>

text \<open>
  Three commits, the output of \<open>git log\<close> that lists them, collaborators that all
  succeed, a repository without notes and a configuration.
\<close>

definition hash1 :: string where "hash1 = ''3f2a9c1d7be04a5586c2d9e1f0a7b4c3d2e1f009''"
definition hash2 :: string where "hash2 = ''a81b7d20c4e94f1385d6b7a9c0e2f1d4b3a59688''"
definition hash3 :: string where "hash3 = ''5c0e44f1a2b3c4d5e6f708192a3b4c5d6e7f8091''"

definition commit1 :: Commit where
  "commit1 = \<lparr>Hash = hash1, Message = ''Fix parser'', Author = ''Alice <alice@example.com>'',
      Date = ''Mon Jan 1 10:00:00 2024 +0000''\<rparr>"
definition commit2 :: Commit where
  "commit2 = \<lparr>Hash = hash2, Message = ''Add tests'', Author = ''Bob <bob@example.com>'',
      Date = ''Sun Dec 31 09:00:00 2023 +0000''\<rparr>"
definition commit3 :: Commit where
  "commit3 = \<lparr>Hash = hash3, Message = ''Initial commit'', Author = ''Alice <alice@example.com>'',
      Date = ''Sat Dec 30 08:00:00 2023 +0000''\<rparr>"

definition record_of :: "Commit \<Rightarrow> string" where
  "record_of c = Hash c @ [nl] @ Author c @ [nl] @ Date c @ [nl] @ Message c @ [nl]"

definition log3 :: string where
  "log3 = record_of commit1 @ record_of commit2 @ record_of commit3"

definition env_ok :: env where
  "env_ok = \<lparr>git_log = (\<lambda>args. Inr log3),
      git_show = (\<lambda>h. Inr ''diff --git a/parse.go b/parse.go''),
      create_temp = Inr ''/tmp/arc-git-note-1.txt'',
      write_string = (\<lambda>name s. None),
      git_notes_add = (\<lambda>ref s h. None),
      validate_config = (\<lambda>cfg. None),
      new_client = (\<lambda>cfg. None),
      service_run = (\<lambda>cfg opts. Inr '' Fixes the parser. ''),
      encode = (\<lambda>s. None)\<rparr>"

definition world0 :: world where
  "world0 = \<lparr>git_notes = (\<lambda>k. None), stdout = [], calls = []\<rparr>"

definition cfg0 :: Config where
  "cfg0 = \<lparr>Provider = ''anthropic'', APIKey = ''key'', DefaultModel = ''model''\<rparr>"

section \<open>Termination\<close>

lemma rune_width_le: "rune_width rs s \<le> length s"
proof (cases "find (\<lambda>r. r \<noteq> [] \<and> take (length r) s = r) rs")
  case None
  then show ?thesis by (simp add: rune_width_def)
next
  case (Some r)
  then have "take (length r) s = r"
    by (auto simp: find_Some_iff)
  then have "length r \<le> length s"
    by (metis length_take min.cobounded1)
  with Some show ?thesis by (simp add: rune_width_def)
qed

termination trim_runes
proof (relation "measure (\<lambda>(rs, s). length s)")
  show "wf (measure (\<lambda>(rs, s). length s))" by simp
next
  fix rs :: "string list" and s :: string
  assume "rune_width rs s \<noteq> 0"
  moreover have "rune_width rs s \<le> length s" by (rule rune_width_le)
  ultimately show "((rs, drop (rune_width rs s) s), (rs, s)) \<in> measure (\<lambda>(rs, s). length s)"
    by simp
qed

termination decimal
  by (relation "measure id") auto

termination parse_lines
  by (relation "measure (\<lambda>(lines, i, commits). length lines - i)") auto

section \<open>The loop body, path by path\<close>

lemma bindF_Inr: "bindF (Inr x) f = f x"
  by (simp add: bindF_def)

lemma bindF_Inl: "bindF (Inl p) f = Inl p"
  by (simp add: bindF_def)

lemma bindF_slice_ok: "7 \<le> length s \<Longrightarrow> bindF (slice_to s 7) f = f (take 7 s)"
  by (simp add: bindF_def slice_to_def)

lemma bindF_slice_short: "length s < 7 \<Longrightarrow> bindF (slice_to s 7) f = Inl (SliceOutOfRange 7 (length s))"
  by (simp add: bindF_def slice_to_def)

lemma process_commit_short:
  "length (Hash c) < 7 \<Longrightarrow>
   process_commit e cfg dryRun force out i n c l w = Inl (SliceOutOfRange 7 (length (Hash c)))"
  by (simp add: process_commit_def bindF_slice_short)

lemma generateAnnotation_ok:
  "7 \<le> length (Hash c) \<Longrightarrow>
   generateAnnotation e cfg c diff w =
     Inr (case service_run e cfg (request c diff) of
            Inl err \<Rightarrow> Inl (Errorf (''AI request failed: '' @ err))
          | Inr text \<Rightarrow> Inr (TrimSpace text),
          called (ServiceRun (request c diff)) w)"
  by (simp add: generateAnnotation_def bindF_slice_ok AnnotateCommit_def Let_def request_def split: sum.splits)

lemma logProgress_eq:
  "logProgress out format args w = (if progress out then printed (Printf format args) w else w)"
  by (cases out) (simp_all add: logProgress_def Is_def progress_def)

lemma called_simps:
  "git_notes (called c w) = git_notes w"
  "stdout (called c w) = stdout w"
  "calls (called c w) = calls w @ [c]"
  by (simp_all add: called_def)

lemma printed_simps:
  "git_notes (printed ev w) = git_notes w"
  "stdout (printed ev w) = stdout w @ [ev]"
  "calls (printed ev w) = calls w"
  by (simp_all add: printed_def)

lemma logProgress_simps:
  "git_notes (logProgress out format args w) = git_notes w"
  "calls (logProgress out format args w) = calls w"
  "stdout (logProgress out format args w) =
     stdout w @ (if progress out then [Printf format args] else [])"
  by (simp_all add: logProgress_eq printed_simps)

lemmas step_defs = process_commit_def bindF_slice_ok bindF_Inr generateAnnotation_ok Let_def
  hasNote_def getCommitDiff_def gated_def outcome_def logProgress_simps called_simps

lemma step_already:
  assumes "7 \<le> length (Hash c)" "\<not> force" "git_notes w (''ai'', Hash c) \<noteq> None"
  shows "process_commit e cfg dryRun force out i n c l w =
     Inr (l\<lparr>skipped := skipped l + 1,
            results := results l @ [outcome c ''skipped'' ''already annotated'' []]\<rparr>,
          logProgress out (''  Already annotated (use --force to re-annotate)'' @ [nl]) []
            (gated force out i n c w))"
  using assms by (simp add: step_defs)

lemma step_diff_failed:
  assumes "7 \<le> length (Hash c)" "force \<or> git_notes w (''ai'', Hash c) = None"
    and "git_show e (Hash c) = Inl err"
  shows "process_commit e cfg dryRun force out i n c l w =
     Inr (l\<lparr>failed := failed l + 1,
            results := results l @
              [outcome c ''failed'' (''failed to get diff: git show failed: '' @ err) []]\<rparr>,
          logProgress out (''  Failed to get diff: %v'' @ [nl]) [E (Errorf (''git show failed: '' @ err))]
            (called (GitShow (Hash c)) (gated force out i n c w)))"
  using assms by (cases force) (simp_all add: step_defs Error_def)

lemma step_no_diff:
  assumes "7 \<le> length (Hash c)" "force \<or> git_notes w (''ai'', Hash c) = None"
    and "git_show e (Hash c) = Inr []"
  shows "process_commit e cfg dryRun force out i n c l w =
     Inr (l\<lparr>skipped := skipped l + 1,
            results := results l @ [outcome c ''skipped'' ''no diff (merge commit?)'' []]\<rparr>,
          logProgress out (''  No diff (merge commit?), skipping'' @ [nl]) []
            (called (GitShow (Hash c)) (gated force out i n c w)))"
  using assms by (cases force) (simp_all add: step_defs)

lemma step_generation_failed:
  assumes "7 \<le> length (Hash c)" "force \<or> git_notes w (''ai'', Hash c) = None"
    and "git_show e (Hash c) = Inr diff" "diff \<noteq> []"
    and "service_run e cfg (request c diff) = Inl err"
  shows "process_commit e cfg dryRun force out i n c l w =
     Inr (l\<lparr>failed := failed l + 1,
            results := results l @
              [outcome c ''failed'' (''failed to generate annotation: AI request failed: '' @ err) []]\<rparr>,
          logProgress out (''  Failed to generate annotation: %v'' @ [nl])
            [E (Errorf (''AI request failed: '' @ err))]
            (generating force out i n c diff w))"
  using assms by (cases force) (simp_all add: step_defs Error_def generating_def)

lemma step_preview:
  assumes "7 \<le> length (Hash c)" "force \<or> git_notes w (''ai'', Hash c) = None"
    and "git_show e (Hash c) = Inr diff" "diff \<noteq> []"
    and "service_run e cfg (request c diff) = Inr text"
  shows "process_commit e cfg True force out i n c l w =
     Inr (l\<lparr>annotated := annotated l + 1,
            results := results l @ [outcome c ''preview'' [] (TrimSpace text)]\<rparr>,
          logProgress out (nl # ''--- Annotation for %s ---'' @ [nl] @ ''%s'' @ [nl])
            [S (take 7 (Hash c)), S (TrimSpace text)]
            (generating force out i n c diff w))"
  using assms by (cases force) (simp_all add: step_defs generating_def)

lemma step_note_failed:
  assumes "7 \<le> length (Hash c)" "force \<or> git_notes w (''ai'', Hash c) = None"
    and "git_show e (Hash c) = Inr diff" "diff \<noteq> []"
    and "service_run e cfg (request c diff) = Inr text"
    and "addNote e (Hash c) ''ai'' (TrimSpace text) (generating force out i n c diff w) = (Some err, w1)"
  shows "process_commit e cfg False force out i n c l w =
     Inr (l\<lparr>failed := failed l + 1,
            results := results l @ [outcome c ''failed'' (''failed to add note: '' @ Error err) []]\<rparr>,
          logProgress out (''  Failed to add note: %v'' @ [nl]) [E err] w1)"
  using assms by (cases force) (simp_all add: step_defs generating_def)

lemma step_success:
  assumes "7 \<le> length (Hash c)" "force \<or> git_notes w (''ai'', Hash c) = None"
    and "git_show e (Hash c) = Inr diff" "diff \<noteq> []"
    and "service_run e cfg (request c diff) = Inr text"
    and "addNote e (Hash c) ''ai'' (TrimSpace text) (generating force out i n c diff w) = (None, w1)"
  shows "process_commit e cfg False force out i n c l w =
     Inr (l\<lparr>annotated := annotated l + 1,
            results := results l @ [outcome c ''success'' [] (TrimSpace text)]\<rparr>,
          logProgress out (''  Annotated successfully'' @ [nl]) [] w1)"
  using assms by (cases force) (simp_all add: step_defs generating_def)

lemma process_commit_Inr_length:
  assumes "process_commit e cfg dryRun force out i n c l w = Inr (l', w')"
  shows "7 \<le> length (Hash c)"
proof (rule ccontr)
  assume "\<not> 7 \<le> length (Hash c)"
  then have "length (Hash c) < 7" by simp
  from process_commit_short [OF this] assms show False by simp
qed

lemma addNote_calls:
  assumes "addNote e h ref note w = (r, w1)"
  shows "\<exists>cs. calls w1 = calls w @ CreateTemp # cs"
  using assms
  by (auto simp: addNote_def Let_def called_simps called_def split: sum.splits option.splits prod.splits)

lemma addNote_notes:
  assumes "addNote e h ref note w = (r, w1)"
  shows "git_notes w1 = (case r of None \<Rightarrow> (git_notes w)((ref, h) \<mapsto> note) | Some err \<Rightarrow> git_notes w)"
  using assms
  by (auto simp: addNote_def Let_def called_simps called_def split: sum.splits option.splits prod.splits)

lemma addNote_stdout:
  assumes "addNote e h ref note w = (r, w1)"
  shows "stdout w1 = stdout w"
  using assms
  by (auto simp: addNote_def Let_def called_simps called_def split: sum.splits option.splits prod.splits)

lemma process_commit_cases [consumes 1, case_names already diff_failed no_diff generation_failed preview note_failed success]:
  assumes run: "process_commit e cfg dryRun force out i n c l w = Inr (l', w')"
  obtains
    "\<not> force" "git_notes w (''ai'', Hash c) \<noteq> None"
      "l' = l\<lparr>skipped := skipped l + 1,
               results := results l @ [outcome c ''skipped'' ''already annotated'' []]\<rparr>"
      "w' = logProgress out (''  Already annotated (use --force to re-annotate)'' @ [nl]) []
              (gated force out i n c w)"
  | err where "force \<or> git_notes w (''ai'', Hash c) = None" "git_show e (Hash c) = Inl err"
      "l' = l\<lparr>failed := failed l + 1,
               results := results l @
                 [outcome c ''failed'' (''failed to get diff: git show failed: '' @ err) []]\<rparr>"
      "w' = logProgress out (''  Failed to get diff: %v'' @ [nl])
              [E (Errorf (''git show failed: '' @ err))]
              (called (GitShow (Hash c)) (gated force out i n c w))"
  | "force \<or> git_notes w (''ai'', Hash c) = None" "git_show e (Hash c) = Inr []"
      "l' = l\<lparr>skipped := skipped l + 1,
               results := results l @ [outcome c ''skipped'' ''no diff (merge commit?)'' []]\<rparr>"
      "w' = logProgress out (''  No diff (merge commit?), skipping'' @ [nl]) []
              (called (GitShow (Hash c)) (gated force out i n c w))"
  | diff err where "force \<or> git_notes w (''ai'', Hash c) = None"
      "git_show e (Hash c) = Inr diff" "diff \<noteq> []"
      "service_run e cfg (request c diff) = Inl err"
      "l' = l\<lparr>failed := failed l + 1,
               results := results l @
                 [outcome c ''failed''
                    (''failed to generate annotation: AI request failed: '' @ err) []]\<rparr>"
      "w' = logProgress out (''  Failed to generate annotation: %v'' @ [nl])
              [E (Errorf (''AI request failed: '' @ err))] (generating force out i n c diff w)"
  | diff ann where "dryRun" "force \<or> git_notes w (''ai'', Hash c) = None"
      "git_show e (Hash c) = Inr diff" "diff \<noteq> []"
      "service_run e cfg (request c diff) = Inr ann"
      "l' = l\<lparr>annotated := annotated l + 1,
               results := results l @ [outcome c ''preview'' [] (TrimSpace ann)]\<rparr>"
      "w' = logProgress out (nl # ''--- Annotation for %s ---'' @ [nl] @ ''%s'' @ [nl])
              [S (take 7 (Hash c)), S (TrimSpace ann)] (generating force out i n c diff w)"
  | diff ann err w1 where "\<not> dryRun" "force \<or> git_notes w (''ai'', Hash c) = None"
      "git_show e (Hash c) = Inr diff" "diff \<noteq> []"
      "service_run e cfg (request c diff) = Inr ann"
      "addNote e (Hash c) ''ai'' (TrimSpace ann) (generating force out i n c diff w) = (Some err, w1)"
      "l' = l\<lparr>failed := failed l + 1,
               results := results l @
                 [outcome c ''failed'' (''failed to add note: '' @ Error err) []]\<rparr>"
      "w' = logProgress out (''  Failed to add note: %v'' @ [nl]) [E err] w1"
  | diff ann w1 where "\<not> dryRun" "force \<or> git_notes w (''ai'', Hash c) = None"
      "git_show e (Hash c) = Inr diff" "diff \<noteq> []"
      "service_run e cfg (request c diff) = Inr ann"
      "addNote e (Hash c) ''ai'' (TrimSpace ann) (generating force out i n c diff w) = (None, w1)"
      "l' = l\<lparr>annotated := annotated l + 1,
               results := results l @ [outcome c ''success'' [] (TrimSpace ann)]\<rparr>"
      "w' = logProgress out (''  Annotated successfully'' @ [nl]) [] w1"
proof -
  have len: "7 \<le> length (Hash c)"
    using run by (rule process_commit_Inr_length)
  show thesis
  proof (cases "\<not> force \<and> git_notes w (''ai'', Hash c) \<noteq> None")
    case True
    then have nf: "\<not> force" and noted: "git_notes w (''ai'', Hash c) \<noteq> None" by simp_all
    from run step_already [OF len nf noted, of e cfg dryRun out i n l]
    have "l' = l\<lparr>skipped := skipped l + 1,
               results := results l @ [outcome c ''skipped'' ''already annotated'' []]\<rparr>"
      and "w' = logProgress out (''  Already annotated (use --force to re-annotate)'' @ [nl]) []
              (gated force out i n c w)"
      by auto
    with nf noted show thesis by (rule that(1))
  next
    case False
    then have gate: "force \<or> git_notes w (''ai'', Hash c) = None" by auto
    show thesis
    proof (cases "git_show e (Hash c)")
      case (Inl err)
      from run step_diff_failed [OF len gate Inl, of cfg dryRun out i n l]
      show thesis using gate Inl by (intro that(2)) auto
    next
      case (Inr diff)
      show thesis
      proof (cases "diff = []")
        case True
        with Inr have empty: "git_show e (Hash c) = Inr []" by simp
        from run step_no_diff [OF len gate empty, of cfg dryRun out i n l]
        show thesis using gate empty by (intro that(3)) auto
      next
        case nonempty: False
        show thesis
        proof (cases "service_run e cfg (request c diff)")
          case (Inl err)
          from run step_generation_failed [OF len gate Inr nonempty Inl, of dryRun out i n l]
          show thesis using gate Inr nonempty Inl by (intro that(4)) auto
        next
          case gen: (Inr ann)
          show thesis
          proof (cases dryRun)
            case True
            from run True step_preview [OF len gate Inr nonempty gen, of out i n l]
            show thesis using gate Inr nonempty gen True by (intro that(5)) auto
          next
            case False
            obtain r w1 where add:
              "addNote e (Hash c) ''ai'' (TrimSpace ann) (generating force out i n c diff w) = (r, w1)"
              by (cases "addNote e (Hash c) ''ai'' (TrimSpace ann) (generating force out i n c diff w)")
            show thesis
            proof (cases r)
              case None
              with add have add': "addNote e (Hash c) ''ai'' (TrimSpace ann)
                  (generating force out i n c diff w) = (None, w1)" by simp
              from run False step_success [OF len gate Inr nonempty gen add', of l]
              show thesis using gate Inr nonempty gen False add' by (intro that(7)) auto
            next
              case (Some err)
              with add have add': "addNote e (Hash c) ''ai'' (TrimSpace ann)
                  (generating force out i n c diff w) = (Some err, w1)" by simp
              from run False step_note_failed [OF len gate Inr nonempty gen add', of l]
              show thesis using gate Inr nonempty gen False add' by (intro that(6)) auto
            qed
          qed
        qed
      qed
    qed
  qed
qed

section \<open>The commit selector\<close>

lemmas trim_defs = parse_log_def TrimSpace_def TrimLeftSpace_def TrimRightSpace_def
  rune_width_def space_runes_def index_def

lemma parse_log3: "parse_log log3 = Inr [commit1, commit2, commit3]"
  by (simp add: log3_def record_of_def commit1_def commit2_def commit3_def hash1_def hash2_def hash3_def trim_defs)

lemma trim_sample: "TrimSpace '' Fixes the parser. '' = ''Fixes the parser.''"
  by (simp add: trim_defs)

text \<open>
  C5. The claim: a final record of the log that does not fill its four fields ends the
  list without an error and without an out-of-bounds access. The loop runs while
  \<open>i+3 <= len(lines)\<close>, so a final record of exactly three lines (the oldest commit
  listed has an empty subject, and \<open>TrimSpace\<close> removes the empty last line) enters
  the body, and \<open>lines[i+3]\<close> is out of range: the run panics.
\<close>

theorem C5_three_line_record_panics:
  "parse_log (hash1 @ [nl] @ ''Alice <alice@example.com>'' @ [nl] @
              ''Mon Jan 1 10:00:00 2024 +0000'' @ [nl]) = Inl (IndexOutOfRange 3 3)"
  by (simp add: hash1_def trim_defs)

section \<open>The outcome of one commit\<close>

text \<open>
  C6. A commit whose diff is retrieved (its hash has the 7 bytes of the short form, and
  the note check lets it through: \<open>force\<close> is set or it has no note) and is empty is
  recorded as skipped with the message \<open>no diff (merge commit?)\<close>, whatever
  \<open>force\<close> and \<open>dryRun\<close> are; no note is written.
\<close>

theorem C6_empty_diff_is_skipped:
  assumes "7 \<le> length (Hash c)"
    and "force \<or> git_notes w (''ai'', Hash c) = None"
    and "git_show e (Hash c) = Inr []"
  shows "\<exists>w'. process_commit e cfg dryRun force out i n c l w =
           Inr (l\<lparr>skipped := skipped l + 1,
                  results := results l @
                    [\<lparr>hash = take 7 (Hash c), status = ''skipped'',
                      message = ''no diff (merge commit?)'', annotation = []\<rparr>]\<rparr>, w')
         \<and> git_notes w' = git_notes w"
  using step_no_diff [OF assms, of cfg dryRun out i n l]
  by (simp add: outcome_def logProgress_simps called_simps gated_def Let_def)

theorem C6_witness:
  "7 \<le> length (Hash commit1)
   \<and> git_show (env_ok\<lparr>git_show := (\<lambda>h. Inr [])\<rparr>) (Hash commit1) = Inr []
   \<and> (\<exists>w'. process_commit (env_ok\<lparr>git_show := (\<lambda>h. Inr [])\<rparr>) cfg0 False True OutputTable
              0 1 commit1 start (world0\<lparr>git_notes := (\<lambda>k. Some ''old note'')\<rparr>) =
            Inr (\<lparr>annotated = 0, skipped = 1, failed = 0,
                  results = [\<lparr>hash = ''3f2a9c1'', status = ''skipped'',
                              message = ''no diff (merge commit?)'', annotation = []\<rparr>]\<rparr>, w'))"
  using C6_empty_diff_is_skipped [where c = commit1 and force = True
      and e = "env_ok\<lparr>git_show := (\<lambda>h. Inr [])\<rparr>" and cfg = cfg0 and dryRun = False
      and out = OutputTable and i = 0 and n = 1 and l = start
      and w = "world0\<lparr>git_notes := (\<lambda>k. Some ''old note'')\<rparr>"]
  by (auto simp: commit1_def hash1_def env_ok_def start_def)

end
